theory Spec2Isabelle
  imports Complex_Main
begin

section \<open>The support chat page (src/pages/Home.tsx)\<close>

text \<open>
  The page keeps four pieces of React state (\<open>messages\<close>, \<open>input\<close>, \<open>loading\<close>,
  \<open>error\<close>) and one asynchronous handler, \<open>handleSend\<close>. The handler runs in two
  synchronous blocks separated by the single \<open>await\<close>: the block up to the dispatch of
  \<open>callAIAgent\<close>, and the block that resumes when the call settles. Each block is a
  function from state to state; the dispatched call is returned as a value and kept in a
  list of calls in flight, so that "busy" and "in flight" are two separate things that
  the theorems relate. React renders between two events, so each block reads the state
  that the previous block left; the functional updates \<open>setMessages(prev => ...)\<close>
  append to the current list.
\<close>

subsection \<open>Strings and numbers of the host language\<close>

text \<open>
  A string is a list of code units, here restricted to the 8-bit range.
  \<open>String.prototype.trim\<close> removes white space and line terminators at both ends; in
  the 8-bit range these are TAB, LF, VT, FF, CR, SPACE and NBSP.
\<close>

definition is_ws :: "char \<Rightarrow> bool" where
  "is_ws c = (c \<in> set [CHR 0x09, CHR 0x0A, CHR 0x0B, CHR 0x0C, CHR 0x0D, CHR 0x20, CHR 0xA0])"

definition trim :: "string \<Rightarrow> string" where
  "trim s = rev (dropWhile is_ws (rev (dropWhile is_ws s)))"

text \<open>
  \<open>a || b\<close> on an optional string \<open>a\<close>: \<open>undefined\<close> and the empty string are falsy,
  every other string is truthy and is the value of the expression.
\<close>

definition or_else :: "string option \<Rightarrow> string \<Rightarrow> string" where
  "or_else a b = (case a of None \<Rightarrow> b | Some t \<Rightarrow> if t = [] then b else t)"

text \<open>
  \<open>Number.prototype.toString\<close> on an integer (decimal digits, a minus sign when
  negative). It is used on \<open>Date.now()\<close> and on the result of \<open>Math.round\<close>, both of
  which are integers far below the magnitude where the host switches to exponent notation.
\<close>

function digits :: "nat \<Rightarrow> string" where
  "digits n = (if n < 10 then [''0123456789'' ! n]
               else digits (n div 10) @ [''0123456789'' ! (n mod 10)])"
  by pat_completeness auto
termination
  by (relation "measure (\<lambda>n. n)") auto

declare digits.simps [simp del]

definition toString :: "int \<Rightarrow> string" where
  "toString n = (if n < 0 then CHR ''-'' # digits (nat (- n)) else digits (nat n))"

text \<open>
  \<open>Math.round\<close> rounds to the nearest integer, halves upwards. Numbers are modelled as
  exact rationals: the rounding error of the floating-point product is not modelled.
\<close>

definition Math_round :: "rat \<Rightarrow> int" where
  "Math_round x = \<lfloor>x + 1 / 2\<rfloor>"

subsection \<open>Data model\<close>

definition AGENT_ID :: string where
  "AGENT_ID = ''69819b9412326156554941e1''"

text \<open>An element of \<open>sources: any[]\<close>: an opaque value, carried as its text.\<close>

datatype any = Any string

record AgentResult =
  answer :: string
  sources_r :: "any list"
  confidence_r :: rat
  follow_up_questions :: "string list"
  requires_escalation :: bool

text \<open>
  Modelled from the spec: the types \<open>NormalizedAgentResponse\<close> and the result type of
  \<open>callAIAgent\<close> are declared in \<open>utils/aiAgent\<close>, which is not part of the sources.
  The fields are the ones \<open>handleSend\<close> reads: \<open>result.success\<close>, \<open>result.error\<close>,
  \<open>result.response\<close> with its \<open>status\<close>, \<open>message\<close> and \<open>result\<close>. The spec gives
  the three shapes \<open>{success:true, response:{status:"success", result}}\<close>,
  \<open>{success:true, response:{status:"error", message}}\<close> and \<open>{success:false, error}\<close>,
  so \<open>response\<close>, \<open>message\<close>, \<open>result\<close> and \<open>error\<close> may each be absent.
\<close>

record NormalizedAgentResponse =
  status :: string
  result :: "AgentResult option"
  message :: "string option"

record AIAgentResponse =
  success :: bool
  response :: "NormalizedAgentResponse option"
  error_r :: "string option"

datatype role = User | Agent

record Message =
  id_m :: string
  role :: role
  content :: string
  timestamp :: int
  confidence :: "rat option"
  sources :: "any list option"
  followUpQuestions :: "string list option"
  requiresEscalation :: "bool option"

definition STARTER_QUESTIONS :: "string list" where
  "STARTER_QUESTIONS =
     [''How can I track my order?'',
      ''What are your business hours?'',
      ''Tell me about your services'',
      ''How do I reset my password?'']"

text \<open>The four \<open>useState\<close> cells of \<open>Home\<close>.\<close>

record Home =
  messages :: "Message list"
  input :: string
  loading :: bool
  error :: "string option"

subsection \<open>Mounting\<close>

text \<open>
  The clock is a parameter: \<open>now\<close> is what \<open>Date.now()\<close> and \<open>new Date()\<close> return in
  the synchronous block that runs (one reading per block).
\<close>

definition useState_initial :: Home where
  "useState_initial = \<lparr>messages = [], input = [], loading = False, error = None\<rparr>"

definition welcomeMessage :: "int \<Rightarrow> Message" where
  "welcomeMessage now =
     \<lparr>id_m = ''welcome'',
      role = Agent,
      content = ''Hello! I'm your customer support assistant. How can I help you today?'',
      timestamp = now,
      confidence = Some 1,
      sources = None,
      followUpQuestions = Some STARTER_QUESTIONS,
      requiresEscalation = Some False\<rparr>"

definition mount :: "int \<Rightarrow> Home \<Rightarrow> Home" where
  "mount now s = s\<lparr>messages := [welcomeMessage now]\<rparr>"

subsection \<open>handleSend\<close>

text \<open>The outbound call \<open>callAIAgent(textToSend, AGENT_ID)\<close>, as a value.\<close>

type_synonym call = "string \<times> string"

definition textToSend :: "string option \<Rightarrow> Home \<Rightarrow> string" where
  "textToSend messageText s = or_else messageText (trim (input s))"

definition userMessage :: "string \<Rightarrow> int \<Rightarrow> Message" where
  "userMessage txt now =
     \<lparr>id_m = toString now,
      role = User,
      content = txt,
      timestamp = now,
      confidence = None,
      sources = None,
      followUpQuestions = None,
      requiresEscalation = None\<rparr>"

text \<open>
  The block of \<open>handleSend\<close> up to the \<open>await\<close>: the guard, then \<open>setInput('')\<close>,
  \<open>setError(null)\<close>, the append of the user message, \<open>setLoading(true)\<close> and the
  dispatch. The second component is the call that was dispatched, if any.
\<close>

definition handleSend :: "string option \<Rightarrow> int \<Rightarrow> Home \<Rightarrow> Home \<times> call option" where
  "handleSend messageText now s =
     (let txt = textToSend messageText s in
      if txt = [] \<or> loading s then (s, None)
      else (s\<lparr>input := [],
               error := None,
               messages := messages s @ [userMessage txt now],
               loading := True\<rparr>,
            Some (txt, AGENT_ID)))"

definition handleQuickReply :: "string \<Rightarrow> int \<Rightarrow> Home \<Rightarrow> Home \<times> call option" where
  "handleQuickReply question now s = handleSend (Some question) now s"

text \<open>How the awaited call settles: the promise rejects, or resolves with a value.\<close>

datatype outcome = Rejected | Resolved AIAgentResponse

datatype exn = TypeError

definition agentMessage :: "AgentResult \<Rightarrow> int \<Rightarrow> Message" where
  "agentMessage r now =
     \<lparr>id_m = toString (now + 1),
      role = Agent,
      content = answer r,
      timestamp = now,
      confidence = Some (confidence_r r),
      sources = Some (sources_r r),
      followUpQuestions = Some (follow_up_questions r),
      requiresEscalation = Some (requires_escalation r)\<rparr>"

definition APOLOGY :: string where
  "APOLOGY = ''I'm sorry, I encountered an error. Please try again or contact support if the issue persists.''"

definition TROUBLE_CONNECTING :: string where
  "TROUBLE_CONNECTING = ''I'm having trouble connecting right now. Please check your internet connection and try again.''"

definition errorMessage :: "string \<Rightarrow> int \<Rightarrow> Message" where
  "errorMessage txt now =
     \<lparr>id_m = toString (now + 1),
      role = Agent,
      content = txt,
      timestamp = now,
      confidence = None,
      sources = None,
      followUpQuestions = None,
      requiresEscalation = Some True\<rparr>"

text \<open>
  The body of the \<open>try\<close> after the call has resolved with \<open>res\<close>. Reading a property
  of an absent \<open>response\<close> or \<open>result\<close> throws a \<open>TypeError\<close>; it is thrown while the
  argument of the first setter is evaluated, so no state has changed when it is thrown.
\<close>

definition try_body :: "AIAgentResponse \<Rightarrow> int \<Rightarrow> Home \<Rightarrow> exn + Home" where
  "try_body res now s =
     (case response res of
        None \<Rightarrow> Inl TypeError
      | Some resp \<Rightarrow>
          if success res \<and> status resp = ''success'' then
            (case result resp of
               None \<Rightarrow> Inl TypeError
             | Some r \<Rightarrow> Inr (s\<lparr>messages := messages s @ [agentMessage r now]\<rparr>))
          else
            Inr (s\<lparr>error := Some (or_else (message resp)
                                   (or_else (error_r res) ''Failed to get response'')),
                   messages := messages s @ [errorMessage APOLOGY now]\<rparr>))"

definition catch_block :: "int \<Rightarrow> Home \<Rightarrow> Home" where
  "catch_block now s =
     s\<lparr>error := Some ''Network error occurred'',
       messages := messages s @ [errorMessage TROUBLE_CONNECTING now]\<rparr>"

text \<open>The block of \<open>handleSend\<close> after the \<open>await\<close>: \<open>try\<close>, \<open>catch\<close>, \<open>finally\<close>.\<close>

definition handleSend_settled :: "outcome \<Rightarrow> int \<Rightarrow> Home \<Rightarrow> Home" where
  "handleSend_settled out now s =
     (let s' = (case out of
                  Rejected \<Rightarrow> catch_block now s
                | Resolved res \<Rightarrow>
                    (case try_body res now s of
                       Inl e \<Rightarrow> catch_block now s
                     | Inr s1 \<Rightarrow> s1))
      in s'\<lparr>loading := False\<rparr>)"

subsection \<open>The session: events and calls in flight\<close>

text \<open>
  A world is the page state together with the calls that have been dispatched and have
  not settled yet. The events are the ways the page is driven: typing into the input
  (\<open>onChange\<close>), a call of \<open>handleSend\<close> (the send button and the Enter key call it
  with no argument), a call of \<open>handleQuickReply\<close>, and the settlement of the oldest
  call in flight. A settlement when nothing is in flight cannot happen and is ignored.
\<close>

record World =
  ui :: Home
  inflight :: "call list"

datatype event =
    Type string
  | Send "string option" int
  | QuickReply string int
  | Settle outcome int

definition dispatch :: "World \<Rightarrow> Home \<times> call option \<Rightarrow> World" where
  "dispatch w r =
     \<lparr>ui = fst r,
      inflight = inflight w @ (case snd r of None \<Rightarrow> [] | Some c \<Rightarrow> [c])\<rparr>"

fun step :: "event \<Rightarrow> World \<Rightarrow> World" where
  "step (Type v) w = w\<lparr>ui := (ui w)\<lparr>input := v\<rparr>\<rparr>"
| "step (Send messageText now) w = dispatch w (handleSend messageText now (ui w))"
| "step (QuickReply question now) w = dispatch w (handleQuickReply question now (ui w))"
| "step (Settle out now) w =
     (case inflight w of
        [] \<Rightarrow> w
      | c # cs \<Rightarrow> \<lparr>ui = handleSend_settled out now (ui w), inflight = cs\<rparr>)"

fun run :: "event list \<Rightarrow> World \<Rightarrow> World" where
  "run [] w = w"
| "run (e # es) w = run es (step e w)"

definition init :: "int \<Rightarrow> World" where
  "init now = \<lparr>ui = mount now useState_initial, inflight = []\<rparr>"

fun is_Settle :: "event \<Rightarrow> bool" where
  "is_Settle (Settle out now) = True"
| "is_Settle e = False"

subsection \<open>Rendering\<close>

text \<open>
  What \<open>ChatMessage\<close> returns, reduced to the parts that depend on the message: the
  alignment class, which avatar is shown, the text of the bubble, and the badges of the
  metadata column in document order. An element records the component, its variant, its
  text and the \<open>onClick\<close> property it is given (\<open>None\<close> when the source gives none).
  The time stamp line is formatted by the host's locale and is kept as the raw instant.
\<close>

datatype handler = CallQuickReply string | CallSend

record element =
  component :: string
  variant :: string
  label :: string
  onClick :: "handler option"

definition Badge :: "string \<Rightarrow> string \<Rightarrow> element" where
  "Badge v txt = \<lparr>component = ''Badge'', variant = v, label = txt, onClick = None\<rparr>"

definition confidenceBadge :: "Message \<Rightarrow> element list" where
  "confidenceBadge m =
     (case confidence m of
        None \<Rightarrow> []
      | Some c \<Rightarrow> [Badge ''outline'' (toString (Math_round (c * 100)) @ ''% confident'')])"

definition escalationBadge :: "Message \<Rightarrow> element list" where
  "escalationBadge m =
     (if requiresEscalation m = Some True
      then [Badge ''destructive'' ''Human support recommended''] else [])"

definition followUpChips :: "Message \<Rightarrow> element list" where
  "followUpChips m =
     (case followUpQuestions m of
        None \<Rightarrow> []
      | Some qs \<Rightarrow> if length qs > 0 then map (\<lambda>q. Badge ''secondary'' q) qs else [])"

record ChatMessageView =
  justify :: string
  avatar :: string
  bubble :: string
  metadata :: "element list"
  time :: int

definition ChatMessage :: "Message \<Rightarrow> ChatMessageView" where
  "ChatMessage m =
     (let isAgent = (role m = Agent) in
      \<lparr>justify = (if isAgent then ''justify-start'' else ''justify-end''),
       avatar = (if isAgent then ''Bot'' else ''User''),
       bubble = content m,
       metadata = (if isAgent then confidenceBadge m @ escalationBadge m @ followUpChips m
                   else []),
       time = timestamp m\<rparr>)"

text \<open>
  The row of suggested questions in the footer of \<open>Home\<close>: the only elements of the
  page that are bound to \<open>handleQuickReply\<close>.
\<close>

definition suggestedQuestions :: "Home \<Rightarrow> element list" where
  "suggestedQuestions s =
     (if length (messages s) = 1 \<and> \<not> loading s
      then map (\<lambda>q. \<lparr>component = ''Button'', variant = ''outline'', label = q,
                     onClick = Some (CallQuickReply q)\<rparr>) STARTER_QUESTIONS
      else [])"

text \<open>Selecting an element runs its \<open>onClick\<close> property, if it has one.\<close>

definition click :: "element \<Rightarrow> int \<Rightarrow> Home \<Rightarrow> Home \<times> call option" where
  "click e now s =
     (case onClick e of
        None \<Rightarrow> (s, None)
      | Some (CallQuickReply q) \<Rightarrow> handleQuickReply q now s
      | Some CallSend \<Rightarrow> handleSend None now s)"

subsection \<open>Notions used to state the properties\<close>

text \<open>
  A world is consistent when the busy flag says exactly whether a call is in flight, and
  no more than one call is in flight.
\<close>

definition consistent :: "World \<Rightarrow> bool" where
  "consistent w = (loading (ui w) = (inflight w \<noteq> []) \<and> length (inflight w) \<le> 1)"

text \<open>
  The text of a send, trimmed: the argument of \<open>handleSend\<close> when it is given, the
  pending input when it is not.
\<close>

definition trimmed_text :: "string option \<Rightarrow> Home \<Rightarrow> string" where
  "trimmed_text messageText s = (case messageText of None \<Rightarrow> trim (input s) | Some t \<Rightarrow> trim t)"

text \<open>An optional string that \<open>||\<close> skips: absent, or empty.\<close>

definition falsy :: "string option \<Rightarrow> bool" where
  "falsy v = (v = None \<or> v = Some [])"

text \<open>
  The outcomes on which the \<open>try\<close> reaches the append of the agent's answer: the
  call resolved, the envelope has \<open>success\<close> and status \<open>success\<close>, and the
  payload is there. Every other outcome is a failure path.
\<close>

definition success_path :: "outcome \<Rightarrow> bool" where
  "success_path out =
     (case out of
        Rejected \<Rightarrow> False
      | Resolved res \<Rightarrow>
          (case response res of
             None \<Rightarrow> False
           | Some resp \<Rightarrow> success res \<and> status resp = ''success'' \<and> result resp \<noteq> None))"

section \<open>Properties\<close>

subsection \<open>The two blocks of handleSend\<close>

lemma handleSend_busy: "loading s \<Longrightarrow> handleSend messageText now s = (s, None)"
  by (simp add: handleSend_def)


lemma handleSend_accepted:
  "\<not> loading s \<Longrightarrow> textToSend messageText s \<noteq> [] \<Longrightarrow>
   handleSend messageText now s =
     (s\<lparr>input := [], error := None,
        messages := messages s @ [userMessage (textToSend messageText s) now],
        loading := True\<rparr>,
      Some (textToSend messageText s, AGENT_ID))"
  by (simp add: handleSend_def Let_def)

lemma settled_Rejected:
  "handleSend_settled Rejected now s =
     s\<lparr>error := Some ''Network error occurred'',
       messages := messages s @ [errorMessage TROUBLE_CONNECTING now],
       loading := False\<rparr>"
  by (simp add: handleSend_settled_def catch_block_def)


lemma settled_error_envelope:
  "response res = Some resp \<Longrightarrow> \<not> (success res \<and> status resp = ''success'') \<Longrightarrow>
   handleSend_settled (Resolved res) now s =
     s\<lparr>error := Some (or_else (message resp) (or_else (error_r res) ''Failed to get response'')),
       messages := messages s @ [errorMessage APOLOGY now],
       loading := False\<rparr>"
  by (auto simp add: handleSend_settled_def try_body_def)

lemma settled_appends_agent:
  "\<exists>a. role a = Agent \<and> messages (handleSend_settled out now s) = messages s @ [a]"
  by (cases out)
     (auto simp add: handleSend_settled_def try_body_def catch_block_def errorMessage_def
        agentMessage_def split: option.splits)

lemma settled_idle: "loading (handleSend_settled out now s) = False"
  by (simp add: handleSend_settled_def Let_def)

lemma settled_input: "input (handleSend_settled out now s) = input s"
  by (cases out)
     (auto simp add: handleSend_settled_def try_body_def catch_block_def split: option.splits)

lemma or_else_truthy: "t \<noteq> [] \<Longrightarrow> or_else (Some t) b = t"
  by (simp add: or_else_def)

lemma or_else_falsy: "falsy v \<Longrightarrow> or_else v b = b"
  by (auto simp add: or_else_def falsy_def)

lemma errorMessage_fields:
  "role (errorMessage txt now) = Agent \<and> content (errorMessage txt now) = txt
   \<and> confidence (errorMessage txt now) = None \<and> sources (errorMessage txt now) = None
   \<and> followUpQuestions (errorMessage txt now) = None
   \<and> requiresEscalation (errorMessage txt now) = Some True"
  by (simp add: errorMessage_def)

lemma settled_failure:
  "\<not> success_path out \<Longrightarrow>
   (\<exists>e. handleSend_settled out now s =
      s\<lparr>error := Some e, messages := messages s @ [errorMessage APOLOGY now], loading := False\<rparr>)
   \<or> handleSend_settled out now s =
      s\<lparr>error := Some ''Network error occurred'',
        messages := messages s @ [errorMessage TROUBLE_CONNECTING now], loading := False\<rparr>"
  by (cases out)
     (auto simp add: success_path_def handleSend_settled_def try_body_def catch_block_def
        split: option.splits)




lemma trimmed_text_nonempty:
  "trimmed_text messageText s \<noteq> [] \<Longrightarrow> textToSend messageText s \<noteq> []"
  by (cases messageText) (auto simp add: trimmed_text_def textToSend_def or_else_def trim_def)

subsection \<open>Runs of the session\<close>

lemma step_consistent: "consistent w \<Longrightarrow> consistent (step e w)"
  by (cases e)
     (auto simp add: consistent_def dispatch_def handleSend_def handleQuickReply_def Let_def
        settled_idle split: list.splits)

lemma run_consistent: "consistent w \<Longrightarrow> consistent (run es w)"
  by (induction es arbitrary: w) (simp_all add: step_consistent)

lemma init_consistent: "consistent (init now)"
  by (simp add: consistent_def init_def mount_def useState_initial_def)

lemma busy_step_messages:
  "loading (ui w) \<Longrightarrow> \<not> is_Settle e \<Longrightarrow>
   messages (ui (step e w)) = messages (ui w) \<and> loading (ui (step e w)) \<and> inflight (step e w) = inflight w"
  by (cases e) (simp_all add: dispatch_def handleSend_busy handleQuickReply_def)

lemma busy_run_messages:
  "loading (ui w) \<Longrightarrow> \<forall>e \<in> set es. \<not> is_Settle e \<Longrightarrow>
   messages (ui (run es w)) = messages (ui w) \<and> loading (ui (run es w)) \<and> inflight (run es w) = inflight w"
proof (induction es arbitrary: w)
  case Nil
  then show ?case by simp
next
  case (Cons e es)
  from Cons.prems have b: "loading (ui w)" and e: "\<not> is_Settle e" and r: "\<forall>e \<in> set es. \<not> is_Settle e"
    by simp_all
  from busy_step_messages [OF b e] Cons.IH [of "step e w"] r show ?case by simp
qed

text \<open>The equations that compute a run of the page on concrete events.\<close>

lemmas run_defs =
  init_def mount_def useState_initial_def dispatch_def handleSend_def handleQuickReply_def
  textToSend_def or_else_def trim_def is_ws_def Let_def handleSend_settled_def try_body_def
  catch_block_def

subsection \<open>Rendering and numbers\<close>





lemma chips_inert:
  "\<forall>e \<in> set (map (Badge ''secondary'') qs). onClick e = None \<and> click e now s = (s, None)"
  by (simp add: Badge_def click_def)

lemma suggested_bound:
  "\<forall>e \<in> set (suggestedQuestions s). click e now s = handleQuickReply (label e) now s"
  by (auto simp add: suggestedQuestions_def click_def)


section \<open>The claims\<close>

subsection \<open>C1: one user message and one agent message per send\<close>

text \<open>
  C1. When no call is in flight and the trimmed text of the send is not empty,
  \<open>handleSend\<close> appends exactly one user message in its first block and dispatches
  one call with that message's text. Whatever is typed or sent while the call is in
  flight, the list stays as it is, and when the call settles (it resolves with any
  envelope, or it rejects) exactly one agent message is appended behind the user message.
\<close>

theorem C1_one_user_one_agent:
  assumes idle: "\<not> loading (ui w)"
    and nonblank: "trimmed_text messageText (ui w) \<noteq> []"
    and others: "\<forall>e \<in> set es. \<not> is_Settle e"
  shows "\<exists>u a. role u = User \<and> role a = Agent
           \<and> messages (ui (step (Send messageText now) w)) = messages (ui w) @ [u]
           \<and> inflight (step (Send messageText now) w) = inflight w @ [(content u, AGENT_ID)]
           \<and> messages (ui (run es (step (Send messageText now) w))) = messages (ui w) @ [u]
           \<and> messages (ui (step (Settle out now') (run es (step (Send messageText now) w))))
               = messages (ui w) @ [u, a]"
proof -
  let ?txt = "textToSend messageText (ui w)"
  let ?u = "userMessage ?txt now"
  let ?w1 = "step (Send messageText now) w"
  have ne: "?txt \<noteq> []" using nonblank by (rule trimmed_text_nonempty)
  have hs: "handleSend messageText now (ui w) =
      ((ui w)\<lparr>input := [], error := None, messages := messages (ui w) @ [?u], loading := True\<rparr>,
       Some (?txt, AGENT_ID))"
    using idle ne by (rule handleSend_accepted)
  have m1: "messages (ui ?w1) = messages (ui w) @ [?u]"
    by (simp add: dispatch_def hs)
  have f1: "inflight ?w1 = inflight w @ [(content ?u, AGENT_ID)]"
    by (simp add: dispatch_def hs userMessage_def)
  have b1: "loading (ui ?w1)"
    by (simp add: dispatch_def hs)
  have m2: "messages (ui (run es ?w1)) = messages (ui w) @ [?u]"
    using busy_run_messages [OF b1 others] m1 by simp
  obtain a where a: "role a = Agent"
    and m3: "messages (handleSend_settled out now' (ui (run es ?w1))) = messages (ui (run es ?w1)) @ [a]"
    using settled_appends_agent by blast
  have f2: "inflight (run es ?w1) \<noteq> []"
    using busy_run_messages [OF b1 others] f1 by simp
  have m4: "messages (ui (step (Settle out now') (run es ?w1))) = messages (ui w) @ [?u, a]"
    using f2 m2 m3 by (cases "inflight (run es ?w1)") simp_all
  have "role ?u = User" by (simp add: userMessage_def)
  with a m1 f1 m2 m4 show ?thesis by blast
qed

theorem C1_witness:
  "\<not> loading (ui (init 0)) \<and> trimmed_text (Some ''hi'') (ui (init 0)) \<noteq> []
   \<and> (\<exists>u a. role u = User \<and> role a = Agent
        \<and> messages (ui (step (Send (Some ''hi'') 1) (init 0))) = messages (ui (init 0)) @ [u]
        \<and> inflight (step (Send (Some ''hi'') 1) (init 0)) = inflight (init 0) @ [(content u, AGENT_ID)]
        \<and> messages (ui (run [Send None 2, Type ''x'', QuickReply ''y'' 2] (step (Send (Some ''hi'') 1) (init 0))))
             = messages (ui (init 0)) @ [u]
        \<and> messages (ui (step (Settle Rejected 3)
             (run [Send None 2, Type ''x'', QuickReply ''y'' 2] (step (Send (Some ''hi'') 1) (init 0)))))
             = messages (ui (init 0)) @ [u, a])"
proof -
  have a: "\<not> loading (ui (init 0))"
    by (simp add: init_def mount_def useState_initial_def)
  have b: "trimmed_text (Some ''hi'') (ui (init 0)) \<noteq> []"
    by (simp add: trimmed_text_def trim_def is_ws_def)
  have c: "\<forall>e \<in> set [Send None 2, Type ''x'', QuickReply ''y'' 2]. \<not> is_Settle e"
    by simp
  from a b C1_one_user_one_agent [OF a b c, of 1 Rejected 3] show ?thesis by blast
qed

subsection \<open>C2: a single call in flight\<close>

text \<open>
  C2. In every world reached from the mounted page at most one call is in flight. While
  the busy flag is set, \<open>handleSend\<close> returns the state as it is and dispatches
  nothing, so the world does not change; once the call in flight has settled, a send with
  a non-empty text dispatches again.
\<close>

theorem C2_busy_send_is_noop:
  "length (inflight (run es (init t0))) \<le> 1
   \<and> (loading s \<longrightarrow>
        handleSend messageText now s = (s, None)
        \<and> step (Send messageText now) \<lparr>ui = s, inflight = cs\<rparr> = \<lparr>ui = s, inflight = cs\<rparr>
        \<and> (textToSend messageText s \<noteq> [] \<longrightarrow>
             snd (handleSend messageText now (handleSend_settled out now' s))
               = Some (textToSend messageText s, AGENT_ID)))"
proof -
  have "consistent (run es (init t0))"
    by (rule run_consistent) (rule init_consistent)
  then have one: "length (inflight (run es (init t0))) \<le> 1"
    by (simp add: consistent_def)
  have again: "snd (handleSend messageText now (handleSend_settled out now' s))
               = Some (textToSend messageText s, AGENT_ID)"
    if "textToSend messageText s \<noteq> []"
  proof -
    have t: "textToSend messageText (handleSend_settled out now' s) = textToSend messageText s"
      by (simp add: textToSend_def settled_input)
    have "\<not> loading (handleSend_settled out now' s)" by (simp add: settled_idle)
    from handleSend_accepted [OF this, of messageText now] that t show ?thesis by simp
  qed
  show ?thesis
    using one again by (simp add: handleSend_busy dispatch_def)
qed

theorem C2_witness:
  "length (inflight (run [Send (Some ''a'') 1, Send (Some ''b'') 2] (init 0))) \<le> 1
   \<and> loading (ui (step (Send (Some ''a'') 1) (init 0)))
   \<and> handleSend (Some ''b'') 2 (ui (step (Send (Some ''a'') 1) (init 0)))
       = (ui (step (Send (Some ''a'') 1) (init 0)), None)"
proof -
  have b: "loading (ui (step (Send (Some ''a'') 1) (init 0)))"
    by (simp add: run_defs)
  from b C2_busy_send_is_noop [of "[Send (Some ''a'') 1, Send (Some ''b'') 2]" 0
      "ui (step (Send (Some ''a'') 1) (init 0))" "Some ''b''" 2 "[]" Rejected 3]
  show ?thesis by blast
qed

subsection \<open>C3: the two kinds of failure\<close>

text \<open>
  C3. When the call resolves with an envelope that does not take the success branch,
  the error shown is the envelope's message when it has a non-empty one, otherwise the
  envelope's \<open>error\<close> when that is non-empty, otherwise \<open>Failed to get response\<close>;
  the message appended is the apology. When the call rejects, the error shown is
  \<open>Network error occurred\<close> and the message appended is the one about the
  connection. Both appended messages are agent messages with the escalation flag true.
  Every outcome off the success path has one of these two effects, the busy flag is
  false afterwards, and the next send with a non-empty text is dispatched.
\<close>

theorem C3_two_failure_kinds:
  "(response res = Some resp \<and> \<not> (success res \<and> status resp = ''success'') \<longrightarrow>
      messages (handleSend_settled (Resolved res) now s) = messages s @ [errorMessage APOLOGY now]
      \<and> (\<forall>m. message resp = Some m \<and> m \<noteq> [] \<longrightarrow>
            error (handleSend_settled (Resolved res) now s) = Some m)
      \<and> (\<forall>e. falsy (message resp) \<and> error_r res = Some e \<and> e \<noteq> [] \<longrightarrow>
            error (handleSend_settled (Resolved res) now s) = Some e)
      \<and> (falsy (message resp) \<and> falsy (error_r res) \<longrightarrow>
            error (handleSend_settled (Resolved res) now s) = Some ''Failed to get response'')
      \<and> loading (handleSend_settled (Resolved res) now s) = False)
   \<and> messages (handleSend_settled Rejected now s) = messages s @ [errorMessage TROUBLE_CONNECTING now]
   \<and> error (handleSend_settled Rejected now s) = Some ''Network error occurred''
   \<and> loading (handleSend_settled Rejected now s) = False
   \<and> role (errorMessage t now) = Agent
   \<and> content (errorMessage t now) = t
   \<and> requiresEscalation (errorMessage t now) = Some True
   \<and> (\<not> success_path out \<longrightarrow>
        (\<exists>e. handleSend_settled out now s =
           s\<lparr>error := Some e, messages := messages s @ [errorMessage APOLOGY now],
             loading := False\<rparr>)
        \<or> handleSend_settled out now s =
           s\<lparr>error := Some ''Network error occurred'',
             messages := messages s @ [errorMessage TROUBLE_CONNECTING now], loading := False\<rparr>)
   \<and> (textToSend messageText s \<noteq> [] \<longrightarrow>
        snd (handleSend messageText now' (handleSend_settled out now s))
          = Some (textToSend messageText s, AGENT_ID))"
proof -
  have env: "messages (handleSend_settled (Resolved res) now s) = messages s @ [errorMessage APOLOGY now]
      \<and> (\<forall>m. message resp = Some m \<and> m \<noteq> [] \<longrightarrow>
            error (handleSend_settled (Resolved res) now s) = Some m)
      \<and> (\<forall>e. falsy (message resp) \<and> error_r res = Some e \<and> e \<noteq> [] \<longrightarrow>
            error (handleSend_settled (Resolved res) now s) = Some e)
      \<and> (falsy (message resp) \<and> falsy (error_r res) \<longrightarrow>
            error (handleSend_settled (Resolved res) now s) = Some ''Failed to get response'')
      \<and> loading (handleSend_settled (Resolved res) now s) = False"
    if r: "response res = Some resp" and n: "\<not> (success res \<and> status resp = ''success'')"
    using settled_error_envelope [OF r n, of now s]
    by (auto simp add: or_else_truthy or_else_falsy)
  have rej: "messages (handleSend_settled Rejected now s) = messages s @ [errorMessage TROUBLE_CONNECTING now]
     \<and> error (handleSend_settled Rejected now s) = Some ''Network error occurred''
     \<and> loading (handleSend_settled Rejected now s) = False"
    by (simp add: settled_Rejected)
  have again: "snd (handleSend messageText now' (handleSend_settled out now s))
               = Some (textToSend messageText s, AGENT_ID)"
    if "textToSend messageText s \<noteq> []"
  proof -
    have t: "textToSend messageText (handleSend_settled out now s) = textToSend messageText s"
      by (simp add: textToSend_def settled_input)
    have "\<not> loading (handleSend_settled out now s)" by (simp add: settled_idle)
    from handleSend_accepted [OF this, of messageText now'] that t show ?thesis by simp
  qed
  note fail = settled_failure [of out now s]
  note flds = errorMessage_fields [of t now]
  from env rej again fail flds
  show ?thesis by blast
qed

theorem C3_witness:
  "error (handleSend_settled (Resolved \<lparr>success = True,
       response = Some \<lparr>status = ''error'', result = None, message = Some ''rate limited''\<rparr>,
       error_r = None\<rparr>) 2 (ui (init 0))) = Some ''rate limited''
   \<and> messages (handleSend_settled (Resolved \<lparr>success = True,
       response = Some \<lparr>status = ''error'', result = None, message = Some ''rate limited''\<rparr>,
       error_r = None\<rparr>) 2 (ui (init 0))) = messages (ui (init 0)) @ [errorMessage APOLOGY 2]
   \<and> requiresEscalation (errorMessage APOLOGY 2) = Some True
   \<and> error (handleSend_settled Rejected 2 (ui (init 0))) = Some ''Network error occurred''
   \<and> messages (handleSend_settled Rejected 2 (ui (init 0)))
       = messages (ui (init 0)) @ [errorMessage TROUBLE_CONNECTING 2]"
proof -
  have h: "response \<lparr>success = True,
       response = Some \<lparr>status = ''error'', result = None, message = Some ''rate limited''\<rparr>,
       error_r = None\<rparr> = Some \<lparr>status = ''error'', result = None, message = Some ''rate limited''\<rparr>
     \<and> \<not> (success \<lparr>success = True,
       response = Some \<lparr>status = ''error'', result = None, message = Some ''rate limited''\<rparr>,
       error_r = None\<rparr> \<and> status \<lparr>status = ''error'', result = None, message = Some ''rate limited''\<rparr> = ''success'')"
    by simp
  have m: "message \<lparr>status = ''error'', result = None, message = Some ''rate limited''\<rparr>
       = Some ''rate limited'' \<and> ''rate limited'' \<noteq> []"
    by simp
  from h m C3_two_failure_kinds [of "\<lparr>success = True,
       response = Some \<lparr>status = ''error'', result = None, message = Some ''rate limited''\<rparr>,
       error_r = None\<rparr>" "\<lparr>status = ''error'', result = None, message = Some ''rate limited''\<rparr>"
       2 "ui (init 0)" APOLOGY Rejected None 3]
  show ?thesis by blast
qed

subsection \<open>C4: the busy flag\<close>

text \<open>
  C4. In every world reached from the mounted page the busy flag is set exactly when a
  call is in flight, that is from the dispatch to the settlement and at no other time.
  Every settlement leaves the page idle with nothing in flight, and the block that runs
  after the \<open>await\<close> clears the flag on each of its paths (success, error envelope,
  thrown error, rejection).
\<close>

theorem C4_busy_between_dispatch_and_settlement:
  "loading (ui (run es (init t0))) = (inflight (run es (init t0)) \<noteq> [])
   \<and> loading (ui (step (Settle out now) (run es (init t0)))) = False
   \<and> inflight (step (Settle out now) (run es (init t0))) = []
   \<and> loading (handleSend_settled out now s) = False"
proof -
  have c: "consistent (run es (init t0))"
    by (rule run_consistent) (rule init_consistent)
  then have "consistent (step (Settle out now) (run es (init t0)))"
    by (rule step_consistent)
  moreover have "inflight (step (Settle out now) (run es (init t0))) = []"
    using c by (cases "inflight (run es (init t0))") (simp_all add: consistent_def)
  ultimately show ?thesis
    using c by (simp add: consistent_def settled_idle)
qed

theorem C4_witness:
  "loading (ui (run [Send (Some ''a'') 1] (init 0)))
   \<and> inflight (run [Send (Some ''a'') 1] (init 0)) \<noteq> []
   \<and> loading (ui (step (Settle Rejected 2) (run [Send (Some ''a'') 1] (init 0)))) = False
   \<and> inflight (step (Settle Rejected 2) (run [Send (Some ''a'') 1] (init 0))) = []"
proof -
  have b: "loading (ui (run [Send (Some ''a'') 1] (init 0)))"
    by (simp add: run_defs)
  from b C4_busy_between_dispatch_and_settlement [of "[Send (Some ''a'') 1]" 0 Rejected 2]
  show ?thesis by blast
qed

subsection \<open>C5: the success path\<close>



subsection \<open>C6: blank text\<close>




subsection \<open>C7: quick replies\<close>




subsection \<open>C8: message identifiers\<close>

text \<open>
  C8. The identifiers are readings of the millisecond clock: the user message takes
  \<open>Date.now()\<close>, the agent message \<open>Date.now() + 1\<close>. A send one millisecond
  after a settlement takes the identifier of the agent message before it: the list then
  holds the same identifier twice.
\<close>

theorem C8_duplicate_ids:
  "map id_m (messages (ui (run
      [Send (Some ''a'') 1000, Settle Rejected 1250, Type ''b'', Send None 1251] (init 0))))
     = [''welcome'', ''1000'', ''1251'', ''1251'']
   \<and> \<not> distinct (map id_m (messages (ui (run
      [Send (Some ''a'') 1000, Settle Rejected 1250, Type ''b'', Send None 1251] (init 0)))))"
  by (simp add: run_defs welcomeMessage_def userMessage_def errorMessage_def toString_def
      digits.simps)

subsection \<open>C9: follow-up chips\<close>

text \<open>
  The claim C9 as it is written fails: the chip of a follow-up question is a badge
  with no \<open>onClick\<close>. Selecting it leaves the page as it is, while
  \<open>handleQuickReply\<close> with the same question would send it.
\<close>

theorem C9_counterexample:
  "followUpChips (agentMessage \<lparr>answer = ''A'', sources_r = [], confidence_r = 92 / 100,
       follow_up_questions = [''Q1''], requires_escalation = False\<rparr> 1)
     = [\<lparr>component = ''Badge'', variant = ''secondary'', label = ''Q1'', onClick = None\<rparr>]
   \<and> click \<lparr>component = ''Badge'', variant = ''secondary'', label = ''Q1'', onClick = None\<rparr>
        2 (ui (init 0)) = (ui (init 0), None)
   \<and> handleQuickReply ''Q1'' 2 (ui (init 0)) \<noteq> (ui (init 0), None)"
  by (simp add: followUpChips_def agentMessage_def Badge_def click_def run_defs)

text \<open>
  C9, amended. For an agent message with a non-empty list of follow-up questions,
  \<open>ChatMessage\<close> renders, after the confidence and escalation badges, one secondary
  badge per question, in order and labelled with the question. The badges have no
  \<open>onClick\<close>: selecting one changes nothing and sends nothing. The elements bound
  to \<open>handleQuickReply\<close> are the buttons of the starter questions, shown while the
  list holds one message and the page is idle.
\<close>

theorem C9_one_chip_per_question:
  "(role m = Agent \<and> followUpQuestions m = Some qs \<and> qs \<noteq> [] \<longrightarrow>
      metadata (ChatMessage m) = confidenceBadge m @ escalationBadge m @ followUpChips m
      \<and> followUpChips m = map (Badge ''secondary'') qs
      \<and> length (followUpChips m) = length qs
      \<and> map label (followUpChips m) = qs
      \<and> (\<forall>e \<in> set (followUpChips m). onClick e = None \<and> click e now s = (s, None)))
   \<and> (length (messages s) = 1 \<and> \<not> loading s \<longrightarrow>
        map label (suggestedQuestions s) = STARTER_QUESTIONS
        \<and> map onClick (suggestedQuestions s) = map (\<lambda>q. Some (CallQuickReply q)) STARTER_QUESTIONS)
   \<and> (\<forall>e \<in> set (suggestedQuestions s). click e now s = handleQuickReply (label e) now s)"
proof -
  have chips: "metadata (ChatMessage m) = confidenceBadge m @ escalationBadge m @ followUpChips m
      \<and> followUpChips m = map (Badge ''secondary'') qs
      \<and> length (followUpChips m) = length qs
      \<and> map label (followUpChips m) = qs
      \<and> (\<forall>e \<in> set (followUpChips m). onClick e = None \<and> click e now s = (s, None))"
    if r: "role m = Agent" and f: "followUpQuestions m = Some qs" and n: "qs \<noteq> []"
  proof -
    have c: "followUpChips m = map (Badge ''secondary'') qs"
      using f n by (simp add: followUpChips_def)
    have l: "map label (map (Badge ''secondary'') qs) = qs"
      by (induction qs) (simp_all add: Badge_def)
    have md: "metadata (ChatMessage m) = confidenceBadge m @ escalationBadge m @ followUpChips m"
      using r by (simp add: ChatMessage_def)
    from c l md chips_inert [of qs now s] show ?thesis by simp
  qed
  have starters: "map label (suggestedQuestions s) = STARTER_QUESTIONS
        \<and> map onClick (suggestedQuestions s) = map (\<lambda>q. Some (CallQuickReply q)) STARTER_QUESTIONS"
    if "length (messages s) = 1" "\<not> loading s"
    using that by (simp add: suggestedQuestions_def comp_def)
  from chips starters suggested_bound [of s now] show ?thesis by blast
qed

theorem C9_witness:
  "role (agentMessage \<lparr>answer = ''A'', sources_r = [], confidence_r = 92 / 100,
       follow_up_questions = [''Q1''], requires_escalation = False\<rparr> 1) = Agent
   \<and> followUpChips (agentMessage \<lparr>answer = ''A'', sources_r = [], confidence_r = 92 / 100,
       follow_up_questions = [''Q1''], requires_escalation = False\<rparr> 1)
       = map (Badge ''secondary'') [''Q1'']
   \<and> length (messages (ui (init 0))) = 1
   \<and> map label (suggestedQuestions (ui (init 0))) = STARTER_QUESTIONS"
proof -
  have h: "role (agentMessage \<lparr>answer = ''A'', sources_r = [], confidence_r = 92 / 100,
       follow_up_questions = [''Q1''], requires_escalation = False\<rparr> 1) = Agent
     \<and> followUpQuestions (agentMessage \<lparr>answer = ''A'', sources_r = [], confidence_r = 92 / 100,
       follow_up_questions = [''Q1''], requires_escalation = False\<rparr> 1) = Some [''Q1'']
     \<and> [''Q1''] \<noteq> []"
    by (simp add: agentMessage_def)
  have i: "length (messages (ui (init 0))) = 1 \<and> \<not> loading (ui (init 0))"
    by (simp add: run_defs)
  from h i C9_one_chip_per_question [of "agentMessage \<lparr>answer = ''A'', sources_r = [],
       confidence_r = 92 / 100, follow_up_questions = [''Q1''], requires_escalation = False\<rparr> 1"
       "[''Q1'']" 2 "ui (init 0)"]
  show ?thesis by blast
qed

subsection \<open>C10: the synthetic messages\<close>

text \<open>
  C10. On every outcome off the success path the appended message is an agent message
  with no confidence, no sources and no follow-up questions, and the escalation flag
  true. Its bubble shows one of the two fixed texts, and its only badge is the
  escalation badge: no confidence badge and no chips.
\<close>

theorem C10_synthetic_message_is_bare:
  assumes failure: "\<not> success_path out"
  shows "role (last (messages (handleSend_settled out now s))) = Agent
     \<and> confidence (last (messages (handleSend_settled out now s))) = None
     \<and> sources (last (messages (handleSend_settled out now s))) = None
     \<and> followUpQuestions (last (messages (handleSend_settled out now s))) = None
     \<and> requiresEscalation (last (messages (handleSend_settled out now s))) = Some True
     \<and> (content (last (messages (handleSend_settled out now s))) = APOLOGY
          \<or> content (last (messages (handleSend_settled out now s))) = TROUBLE_CONNECTING)
     \<and> bubble (ChatMessage (last (messages (handleSend_settled out now s))))
          = content (last (messages (handleSend_settled out now s)))
     \<and> confidenceBadge (last (messages (handleSend_settled out now s))) = []
     \<and> followUpChips (last (messages (handleSend_settled out now s))) = []
     \<and> metadata (ChatMessage (last (messages (handleSend_settled out now s))))
          = [Badge ''destructive'' ''Human support recommended'']"
proof -
  have bare: "role (errorMessage t now) = Agent
     \<and> confidence (errorMessage t now) = None
     \<and> sources (errorMessage t now) = None
     \<and> followUpQuestions (errorMessage t now) = None
     \<and> requiresEscalation (errorMessage t now) = Some True
     \<and> content (errorMessage t now) = t
     \<and> bubble (ChatMessage (errorMessage t now)) = t
     \<and> confidenceBadge (errorMessage t now) = []
     \<and> followUpChips (errorMessage t now) = []
     \<and> metadata (ChatMessage (errorMessage t now))
          = [Badge ''destructive'' ''Human support recommended'']" for t
    by (simp add: errorMessage_def ChatMessage_def confidenceBadge_def escalationBadge_def
        followUpChips_def)
  from settled_failure [OF failure, of now s]
  have "last (messages (handleSend_settled out now s)) = errorMessage APOLOGY now
        \<or> last (messages (handleSend_settled out now s)) = errorMessage TROUBLE_CONNECTING now"
    by auto
  then show ?thesis
    using bare [of APOLOGY] bare [of TROUBLE_CONNECTING] by (elim disjE) simp_all
qed

theorem C10_witness:
  "\<not> success_path Rejected
   \<and> confidence (last (messages (handleSend_settled Rejected 2 (ui (init 0))))) = None
   \<and> followUpQuestions (last (messages (handleSend_settled Rejected 2 (ui (init 0))))) = None
   \<and> metadata (ChatMessage (last (messages (handleSend_settled Rejected 2 (ui (init 0))))))
        = [Badge ''destructive'' ''Human support recommended'']"
proof -
  have h: "\<not> success_path Rejected" by (simp add: success_path_def)
  from h C10_synthetic_message_is_bare [OF h, of 2 "ui (init 0)"] show ?thesis by blast
qed

end
